theory Spec2Isabelle
  imports Main
begin

section \<open>Data model of the DocChat walkthrough notebook\<close>

text \<open>
  The program is \<^verbatim>\<open>notebooks/walkthrough.ipynb\<close>: nine code cells that call
  LangChain, Chroma and OpenAI. The libraries are not part of the repository, so
  they are a parameter of the model (the record \<open>libs\<close>): every library call is a
  function of its arguments that either raises (\<open>Inl\<close>) or returns (\<open>Inr\<close>), and the
  objects it returns are opaque values. What is verified is the notebook's own code:
  which calls it makes, in which order, with which arguments, what it binds and what
  it prints.
\<close>

text \<open>
  A LangChain \<^verbatim>\<open>Document\<close>: the text and the source metadata. \<open>page_content\<close> is
  the list of the characters of the text, one element for each character that Python's
  \<^verbatim>\<open>len\<close> counts.
\<close>

record document =
  page_content :: string
  metadata :: "(string \<times> string) list"

text \<open>
  Exceptions. A library may raise any of them; the notebook's own statements can raise
  \<open>NameError\<close> (a variable read before its cell has bound it), \<open>IndexError\<close>
  (\<^verbatim>\<open>docs[0]\<close> on an empty list), \<open>KeyError\<close> (\<^verbatim>\<open>result["answer"]\<close> on a result
  without that key) and \<open>ValueError\<close> (\<^verbatim>\<open>os.environ[k] = v\<close> with a NUL character in
  \<^verbatim>\<open>v\<close>).
\<close>

datatype exn =
    LibraryError string
  | NameError string
  | IndexError
  | KeyError string
  | ValueError string

text \<open>
  The external library calls the notebook makes, with the arguments it passes. Library
  objects (loader, splitter, embeddings, vector store, retriever, model, chain) are
  opaque values of type \<open>'obj\<close>. The two OpenAI constructors take no credential
  argument in the source and read it from the process environment, so the environment
  is their input.
\<close>

record 'obj libs =
  getpass :: "string \<Rightarrow> exn + string"
  DirectoryLoader :: "string \<Rightarrow> string \<Rightarrow> exn + 'obj"
  load :: "'obj \<Rightarrow> exn + document list"
  CharacterTextSplitter :: "int \<Rightarrow> int \<Rightarrow> exn + 'obj"
  split_documents :: "'obj \<Rightarrow> document list \<Rightarrow> exn + document list"
  OpenAIEmbeddings :: "(string \<rightharpoonup> string) \<Rightarrow> exn + 'obj"
  from_documents :: "document list \<Rightarrow> 'obj \<Rightarrow> exn + 'obj"
  similarity_search :: "'obj \<Rightarrow> string \<Rightarrow> exn + document list"
  as_retriever :: "'obj \<Rightarrow> string \<Rightarrow> (string \<rightharpoonup> int) \<Rightarrow> exn + 'obj"
  OpenAI :: "(string \<rightharpoonup> string) \<Rightarrow> int \<Rightarrow> exn + 'obj"
  from_llm :: "'obj \<Rightarrow> 'obj \<Rightarrow> exn + 'obj"
  chain_call :: "'obj \<Rightarrow> string \<Rightarrow> (string \<times> string) list \<Rightarrow> exn + (string \<rightharpoonup> string)"

text \<open>One entry of the log of library calls: the call and its arguments.\<close>

datatype 'obj call =
    GetPass string
  | NewDirectoryLoader string string
  | Load 'obj
  | NewCharacterTextSplitter int int
  | SplitDocuments 'obj "document list"
  | NewOpenAIEmbeddings "string \<rightharpoonup> string"
  | FromDocuments "document list" 'obj
  | SimilaritySearch 'obj string
  | AsRetriever 'obj string "string \<rightharpoonup> int"
  | NewOpenAI "string \<rightharpoonup> string" int
  | FromLLM 'obj 'obj
  | ChainCall 'obj string "(string \<times> string) list"

text \<open>
  The state of the kernel: the process environment, the notebook's global variables
  (\<open>None\<close> while unbound), what has been printed, the value the last cell displayed, and
  the log of library calls made so far. The variable \<^verbatim>\<open>text\<close> is the field \<open>text_v\<close>.
\<close>

record 'obj kernel =
  environ :: "string \<rightharpoonup> string"
  pdf_loader :: "'obj option"
  documents :: "document list option"
  num_docs :: "int option"
  num_chars :: "int option"
  text_splitter :: "'obj option"
  embeddings :: "'obj option"
  vectorstore :: "'obj option"
  text_v :: "string option"
  docs :: "document list option"
  retriever :: "'obj option"
  chatbot :: "'obj option"
  chat_history :: "(string \<times> string) list option"
  query :: "string option"
  result :: "(string \<rightharpoonup> string) option"
  stdout :: "string list"
  displayed :: "string option"
  calls :: "'obj call list"

section \<open>Statements\<close>

text \<open>
  A statement maps the kernel state to an outcome and the state it leaves. An exception
  ends the cell; the bindings made before it stay, as they do in a Jupyter kernel.
\<close>

type_synonym ('obj, 'a) py = "'obj kernel \<Rightarrow> (exn + 'a) \<times> 'obj kernel"

definition bind_py :: "('obj, 'a) py \<Rightarrow> ('a \<Rightarrow> ('obj, 'b) py) \<Rightarrow> ('obj, 'b) py" where
  "bind_py m f s = (case m s of (Inl e, s') \<Rightarrow> (Inl e, s') | (Inr v, s') \<Rightarrow> f v s')"

definition then_py :: "('obj, unit) py \<Rightarrow> ('obj, 'b) py \<Rightarrow> ('obj, 'b) py" where
  "then_py m n = bind_py m (\<lambda>_. n)"

text \<open>A library call: it is logged, and its result or exception is the statement's.\<close>

definition invoke :: "'obj call \<Rightarrow> exn + 'a \<Rightarrow> ('obj, 'a) py" where
  "invoke c r s = (r, s\<lparr>calls := calls s @ [c]\<rparr>)"

text \<open>Reading a global variable: \<open>NameError\<close> when it is unbound.\<close>

definition name_lookup :: "string \<Rightarrow> ('obj kernel \<Rightarrow> 'a option) \<Rightarrow> ('obj, 'a) py" where
  "name_lookup n var s = (case var s of None \<Rightarrow> (Inl (NameError n), s) | Some v \<Rightarrow> (Inr v, s))"

text \<open>An assignment or another update of the state that cannot fail.\<close>

definition assign :: "('obj kernel \<Rightarrow> 'obj kernel) \<Rightarrow> ('obj, unit) py" where
  "assign f s = (Inr (), f s)"

definition print :: "string \<Rightarrow> ('obj, unit) py" where
  "print line = assign (\<lambda>s. s\<lparr>stdout := stdout s @ [line]\<rparr>)"

text \<open>A library call that reads the process environment.\<close>

definition with_environ :: "((string \<rightharpoonup> string) \<Rightarrow> ('obj, 'a) py) \<Rightarrow> ('obj, 'a) py" where
  "with_environ m s = m (environ s) s"

definition raise_py :: "exn \<Rightarrow> ('obj, 'a) py" where
  "raise_py e s = (Inl e, s)"

text \<open>\<^verbatim>\<open>d[k]\<close> on a dictionary: \<open>KeyError\<close> when the key is missing.\<close>

definition subscript :: "(string \<rightharpoonup> 'v) \<Rightarrow> string \<Rightarrow> ('obj, 'v) py" where
  "subscript d k = (case d k of None \<Rightarrow> raise_py (KeyError k) | Some v \<Rightarrow> (\<lambda>s. (Inr v, s)))"

text \<open>\<^verbatim>\<open>str(n)\<close> of a Python integer, as the f-strings and \<^verbatim>\<open>print\<close> render it.\<close>

fun str_nat :: "nat \<Rightarrow> string" where
  "str_nat n =
     (if n < 10 then [''0123456789'' ! n]
      else str_nat (n div 10) @ [''0123456789'' ! (n mod 10)])"

declare str_nat.simps [simp del]

definition str_int :: "int \<Rightarrow> string" where
  "str_int i = (if i < 0 then CHR ''-'' # str_nat (nat (- i)) else str_nat (nat i))"

section \<open>The cells\<close>

subsection \<open>Cell 2: the API key\<close>

text \<open>
  \<^verbatim>\<open>os.environ['OPENAI_API_KEY'] = getpass.getpass('OpenAI API Key:')\<close>

  \<^verbatim>\<open>os.environ.__setitem__\<close> raises \<open>ValueError\<close> for a value with an embedded NUL
  character and stores every other string.
\<close>

definition cell2 :: "'obj libs \<Rightarrow> ('obj, unit) py" where
  "cell2 L =
     bind_py (invoke (GetPass ''OpenAI API Key:'') (getpass L ''OpenAI API Key:'')) (\<lambda>key.
       if CHR 0x00 \<in> set key
       then raise_py (ValueError ''embedded null byte'')
       else assign (\<lambda>s. s\<lparr>environ := (environ s)(''OPENAI_API_KEY'' \<mapsto> key)\<rparr>))"

subsection \<open>Cell 3: loading the PDF files\<close>

text \<open>
  \<^verbatim>\<open>
  pdf_loader = DirectoryLoader('../documents/', glob="**/*.pdf")
  documents = []
  documents.extend(pdf_loader.load())
  num_docs = len(documents)
  num_chars = sum([len(document.page_content) for document in documents])
  print (f'Found {num_docs} document(s) the provided directory')
  print (f'Found {num_chars} characters in your document(s)')
  \<close>
\<close>

definition cell3 :: "'obj libs \<Rightarrow> ('obj, unit) py" where
  "cell3 L =
     bind_py (invoke (NewDirectoryLoader ''../documents/'' ''**/*.pdf'')
                (DirectoryLoader L ''../documents/'' ''**/*.pdf'')) (\<lambda>ldr.
     then_py (assign (\<lambda>s. s\<lparr>pdf_loader := Some ldr\<rparr>)) (
     then_py (assign (\<lambda>s. s\<lparr>documents := Some []\<rparr>)) (
     bind_py (name_lookup ''documents'' documents) (\<lambda>ds0.
     bind_py (name_lookup ''pdf_loader'' pdf_loader) (\<lambda>pl.
     bind_py (invoke (Load pl) (load L pl)) (\<lambda>loaded.
     then_py (assign (\<lambda>s. s\<lparr>documents := Some (ds0 @ loaded)\<rparr>)) (
     bind_py (name_lookup ''documents'' documents) (\<lambda>ds.
     then_py (assign (\<lambda>s. s\<lparr>num_docs := Some (int (length ds))\<rparr>)) (
     bind_py (name_lookup ''documents'' documents) (\<lambda>ds'.
     then_py (assign (\<lambda>s. s\<lparr>num_chars :=
                Some (sum_list (map (\<lambda>document. int (length (page_content document))) ds'))\<rparr>)) (
     bind_py (name_lookup ''num_docs'' num_docs) (\<lambda>n.
     then_py (print (''Found '' @ str_int n @ '' document(s) the provided directory'')) (
     bind_py (name_lookup ''num_chars'' num_chars) (\<lambda>c.
     print (''Found '' @ str_int c @ '' characters in your document(s)'')))))))))))))))"

subsection \<open>Cell 4: splitting\<close>

text \<open>
  \<^verbatim>\<open>
  text_splitter = CharacterTextSplitter(chunk_size=1000, chunk_overlap=40)
  documents = text_splitter.split_documents(documents)
  print(len(documents))
  \<close>
\<close>

definition cell4 :: "'obj libs \<Rightarrow> ('obj, unit) py" where
  "cell4 L =
     bind_py (invoke (NewCharacterTextSplitter 1000 40) (CharacterTextSplitter L 1000 40)) (\<lambda>spl.
     then_py (assign (\<lambda>s. s\<lparr>text_splitter := Some spl\<rparr>)) (
     bind_py (name_lookup ''text_splitter'' text_splitter) (\<lambda>sp.
     bind_py (name_lookup ''documents'' documents) (\<lambda>ds.
     bind_py (invoke (SplitDocuments sp ds) (split_documents L sp ds)) (\<lambda>chunks.
     then_py (assign (\<lambda>s. s\<lparr>documents := Some chunks\<rparr>)) (
     bind_py (name_lookup ''documents'' documents) (\<lambda>ds'.
     print (str_int (int (length ds'))))))))))"

subsection \<open>Cell 5: embeddings and the vector store\<close>

text \<open>
  \<^verbatim>\<open>
  embeddings = OpenAIEmbeddings()
  vectorstore = Chroma.from_documents(documents, embeddings)
  \<close>
\<close>

definition cell5 :: "'obj libs \<Rightarrow> ('obj, unit) py" where
  "cell5 L =
     bind_py (with_environ (\<lambda>env.
                invoke (NewOpenAIEmbeddings env) (OpenAIEmbeddings L env))) (\<lambda>emb.
     then_py (assign (\<lambda>s. s\<lparr>embeddings := Some emb\<rparr>)) (
     bind_py (name_lookup ''documents'' documents) (\<lambda>ds.
     bind_py (name_lookup ''embeddings'' embeddings) (\<lambda>e.
     bind_py (invoke (FromDocuments ds e) (from_documents L ds e)) (\<lambda>vs.
     assign (\<lambda>s. s\<lparr>vectorstore := Some vs\<rparr>))))))"

subsection \<open>Cells 6 and 7: one similarity search, and its best hit printed\<close>

text \<open>
  \<^verbatim>\<open>
  text = "What makes Retentive Networks good?"
  docs = vectorstore.similarity_search(text)
  \<close>
\<close>

definition cell6 :: "'obj libs \<Rightarrow> ('obj, unit) py" where
  "cell6 L =
     then_py (assign (\<lambda>s. s\<lparr>text_v := Some ''What makes Retentive Networks good?''\<rparr>)) (
     bind_py (name_lookup ''vectorstore'' vectorstore) (\<lambda>vs.
     bind_py (name_lookup ''text'' text_v) (\<lambda>t.
     bind_py (invoke (SimilaritySearch vs t) (similarity_search L vs t)) (\<lambda>found.
     assign (\<lambda>s. s\<lparr>docs := Some found\<rparr>)))))"

text \<open>\<^verbatim>\<open>print(docs[0].page_content)\<close>\<close>

definition cell7 :: "('obj, unit) py" where
  "cell7 =
     bind_py (name_lookup ''docs'' docs) (\<lambda>found.
       case found of [] \<Rightarrow> raise_py IndexError | d # _ \<Rightarrow> print (page_content d))"

subsection \<open>Cell 8: the retriever and the conversational chain\<close>

text \<open>
  \<^verbatim>\<open>
  retriever = vectorstore.as_retriever(search_type="similarity", search_kwargs={"k":2})
  chatbot = ConversationalRetrievalChain.from_llm(OpenAI(temperature=0), retriever)
  \<close>
\<close>

definition cell8 :: "'obj libs \<Rightarrow> ('obj, unit) py" where
  "cell8 L =
     bind_py (name_lookup ''vectorstore'' vectorstore) (\<lambda>vs.
     bind_py (invoke (AsRetriever vs ''similarity'' [''k'' \<mapsto> 2])
                (as_retriever L vs ''similarity'' [''k'' \<mapsto> 2])) (\<lambda>r.
     then_py (assign (\<lambda>s. s\<lparr>retriever := Some r\<rparr>)) (
     bind_py (with_environ (\<lambda>env. invoke (NewOpenAI env 0) (OpenAI L env 0))) (\<lambda>llm.
     bind_py (name_lookup ''retriever'' retriever) (\<lambda>r'.
     bind_py (invoke (FromLLM llm r') (from_llm L llm r')) (\<lambda>chain.
     assign (\<lambda>s. s\<lparr>chatbot := Some chain\<rparr>)))))))"

subsection \<open>Cell 9: one question\<close>

text \<open>
  \<^verbatim>\<open>
  chat_history = []
  query = "What makes Retentive Networks good?"
  result = chatbot({"question": query, "chat_history": chat_history})
  chat_history.append((query, result["answer"]))
  result["answer"]
  \<close>
  The last line is the value the cell displays. \<open>ask\<close> is the cell from its second
  line on: the question, the call of the chain, the append and the displayed answer.
\<close>

definition ask :: "'obj libs \<Rightarrow> ('obj, unit) py" where
  "ask L =
     then_py (assign (\<lambda>s. s\<lparr>query := Some ''What makes Retentive Networks good?''\<rparr>)) (
     bind_py (name_lookup ''chatbot'' chatbot) (\<lambda>chain.
     bind_py (name_lookup ''query'' query) (\<lambda>q.
     bind_py (name_lookup ''chat_history'' chat_history) (\<lambda>h.
     bind_py (invoke (ChainCall chain q h) (chain_call L chain q h)) (\<lambda>res.
     then_py (assign (\<lambda>s. s\<lparr>result := Some res\<rparr>)) (
     bind_py (name_lookup ''chat_history'' chat_history) (\<lambda>h'.
     bind_py (name_lookup ''query'' query) (\<lambda>q'.
     bind_py (name_lookup ''result'' result) (\<lambda>r.
     bind_py (subscript r ''answer'') (\<lambda>a.
     then_py (assign (\<lambda>s. s\<lparr>chat_history := Some (h' @ [(q', a)])\<rparr>)) (
     bind_py (name_lookup ''result'' result) (\<lambda>r'.
     bind_py (subscript r' ''answer'') (\<lambda>a'.
     assign (\<lambda>s. s\<lparr>displayed := Some a'\<rparr>))))))))))))))"

definition cell9 :: "'obj libs \<Rightarrow> ('obj, unit) py" where
  "cell9 L = then_py (assign (\<lambda>s. s\<lparr>chat_history := Some []\<rparr>)) (ask L)"

subsection \<open>The whole notebook\<close>

text \<open>
  The code cells in order, as "Run All" executes them: the first exception stops the
  run. Cell 1 and the first lines of cells 5 and 8 are imports; they bind library names
  and are not modelled.
\<close>

definition notebook :: "'obj libs \<Rightarrow> ('obj, unit) py" where
  "notebook L =
     then_py (cell2 L) (
     then_py (cell3 L) (
     then_py (cell4 L) (
     then_py (cell5 L) (
     then_py (cell6 L) (
     then_py cell7 (
     then_py (cell8 L) (
     cell9 L)))))))"

text \<open>A kernel that has run nothing: no variable is bound.\<close>

definition fresh :: "(string \<rightharpoonup> string) \<Rightarrow> 'obj kernel" where
  "fresh env =
     \<lparr>environ = env, pdf_loader = None, documents = None, num_docs = None, num_chars = None,
      text_splitter = None, embeddings = None, vectorstore = None, text_v = None, docs = None,
      retriever = None, chatbot = None, chat_history = None, query = None, result = None,
      stdout = [], displayed = None, calls = []\<rparr>"

section \<open>What a logged call raised, and what a statement leaves alone\<close>



text \<open>\<open>preserves var m\<close>: the statement \<open>m\<close> leaves \<open>var\<close> as it was, whatever its outcome.\<close>

definition preserves :: "('obj kernel \<Rightarrow> 'x) \<Rightarrow> ('obj, 'a) py \<Rightarrow> bool" where
  "preserves var m = (\<forall>s. var (snd (m s)) = var s)"

section \<open>A concrete run\<close>

text \<open>
  A small stand-in for the libraries, to run the notebook on: two documents, three
  chunks, one search hit, a fixed answer. The OpenAI constructors raise when the key is
  not in the environment.
\<close>

definition demo_env :: "string \<rightharpoonup> string" where
  "demo_env = [''HOME'' \<mapsto> ''/home/user'']"

definition demo_docs :: "document list" where
  "demo_docs = [\<lparr>page_content = ''alpha beta'', metadata = [(''source'', ''a.pdf'')]\<rparr>,
                \<lparr>page_content = ''gamma'', metadata = [(''source'', ''b.pdf'')]\<rparr>]"

definition demo_chunks :: "document list" where
  "demo_chunks = [\<lparr>page_content = ''alpha'', metadata = [(''source'', ''a.pdf'')]\<rparr>,
                  \<lparr>page_content = ''beta'', metadata = [(''source'', ''a.pdf'')]\<rparr>,
                  \<lparr>page_content = ''gamma'', metadata = [(''source'', ''b.pdf'')]\<rparr>]"

definition demo_libs :: "string libs" where
  "demo_libs =
     \<lparr>getpass = (\<lambda>prompt. Inr ''sk-demo''),
      DirectoryLoader = (\<lambda>path glob. Inr ''loader''),
      load = (\<lambda>ldr. Inr demo_docs),
      CharacterTextSplitter = (\<lambda>size overlap. Inr ''splitter''),
      split_documents = (\<lambda>spl ds. Inr demo_chunks),
      OpenAIEmbeddings = (\<lambda>env. case env ''OPENAI_API_KEY'' of
          None \<Rightarrow> Inl (LibraryError ''no API key'') | Some k \<Rightarrow> Inr ''embeddings''),
      from_documents = (\<lambda>ds emb. Inr ''vectorstore''),
      similarity_search = (\<lambda>vs q. Inr (take 1 demo_chunks)),
      as_retriever = (\<lambda>vs search_type kwargs. Inr ''retriever''),
      OpenAI = (\<lambda>env temperature. case env ''OPENAI_API_KEY'' of
          None \<Rightarrow> Inl (LibraryError ''no API key'') | Some k \<Rightarrow> Inr ''llm''),
      from_llm = (\<lambda>llm r. Inr ''chain''),
      chain_call = (\<lambda>chain q h. Inr [''answer'' \<mapsto> ''They are fast.''])\<rparr>"

text \<open>The loader finds an empty directory.\<close>

definition empty_dir_libs :: "string libs" where
  "empty_dir_libs = demo_libs\<lparr>load := (\<lambda>ldr. Inr [])\<rparr>"


text \<open>The state of the kernel after the whole notebook has run on \<open>demo_libs\<close>.\<close>

definition demo_final :: "string kernel" where
  "demo_final =
     \<lparr>environ = demo_env(''OPENAI_API_KEY'' \<mapsto> ''sk-demo''),
      pdf_loader = Some ''loader'',
      documents = Some demo_chunks,
      num_docs = Some 2,
      num_chars = Some 15,
      text_splitter = Some ''splitter'',
      embeddings = Some ''embeddings'',
      vectorstore = Some ''vectorstore'',
      text_v = Some ''What makes Retentive Networks good?'',
      docs = Some (take 1 demo_chunks),
      retriever = Some ''retriever'',
      chatbot = Some ''chain'',
      chat_history = Some [(''What makes Retentive Networks good?'', ''They are fast.'')],
      query = Some ''What makes Retentive Networks good?'',
      result = Some [''answer'' \<mapsto> ''They are fast.''],
      stdout = [''Found 2 document(s) the provided directory'',
                ''Found 15 characters in your document(s)'',
                ''3'',
                ''alpha''],
      displayed = Some ''They are fast.'',
      calls = [GetPass ''OpenAI API Key:'',
               NewDirectoryLoader ''../documents/'' ''**/*.pdf'',
               Load ''loader'',
               NewCharacterTextSplitter 1000 40,
               SplitDocuments ''splitter'' demo_docs,
               NewOpenAIEmbeddings (demo_env(''OPENAI_API_KEY'' \<mapsto> ''sk-demo'')),
               FromDocuments demo_chunks ''embeddings'',
               SimilaritySearch ''vectorstore'' ''What makes Retentive Networks good?'',
               AsRetriever ''vectorstore'' ''similarity'' [''k'' \<mapsto> 2],
               NewOpenAI (demo_env(''OPENAI_API_KEY'' \<mapsto> ''sk-demo'')) 0,
               FromLLM ''llm'' ''retriever'',
               ChainCall ''chain'' ''What makes Retentive Networks good?'' []]\<rparr>"





section \<open>Properties\<close>

lemmas py_defs = bind_py_def then_py_def invoke_def name_lookup_def assign_def print_def
  raise_py_def subscript_def with_environ_def

subsection \<open>Decimal rendering\<close>

lemma str_int_0: "str_int 0 = ''0''"
  by (simp add: str_int_def str_nat.simps)

lemma str_int_digit [simp]: "str_int 2 = ''2''" "str_int 3 = ''3''" "str_int 15 = ''15''"
  by (simp_all add: str_int_def str_nat.simps)

text \<open>Different counts print differently, so a printed count determines the number.\<close>

lemma digit_inj:
  assumes "a < 10" and "b < 10" and "''0123456789'' ! a = ''0123456789'' ! b"
  shows "a = b"
proof -
  have "distinct ''0123456789''" by simp
  moreover have "a < length ''0123456789''" "b < length ''0123456789''" using assms by simp_all
  ultimately show ?thesis using assms(3) by (simp only: nth_eq_iff_index_eq)
qed

lemma str_nat_length: "length (str_nat n) = 1 \<longleftrightarrow> n < 10"
proof (cases "n < 10")
  case True
  then show ?thesis by (simp add: str_nat.simps)
next
  case False
  have "str_nat (n div 10) \<noteq> []"
    by (subst str_nat.simps) simp
  with False show ?thesis by (subst str_nat.simps) simp
qed

lemma str_nat_inj: "str_nat m = str_nat n \<Longrightarrow> m = n"
proof (induction m arbitrary: n rule: str_nat.induct)
  case (1 m)
  show ?case
  proof (cases "m < 10")
    case True
    with "1.prems" have n: "n < 10" using str_nat_length by metis
    with True "1.prems" show ?thesis by (simp add: str_nat.simps digit_inj)
  next
    case False
    with "1.prems" have n: "\<not> n < 10" using str_nat_length by metis
    from False n "1.prems"
    have "str_nat (m div 10) @ [''0123456789'' ! (m mod 10)]
        = str_nat (n div 10) @ [''0123456789'' ! (n mod 10)]"
      by (simp add: str_nat.simps [of m] str_nat.simps [of n])
    then have "str_nat (m div 10) = str_nat (n div 10)"
      and "''0123456789'' ! (m mod 10) = ''0123456789'' ! (n mod 10)"
      by simp_all
    with False "1.IH" have "m div 10 = n div 10" and "m mod 10 = n mod 10"
      by (simp_all add: digit_inj)
    then show ?thesis by (metis div_mult_mod_eq)
  qed
qed

lemma str_int_inj: "str_int (int m) = str_int (int n) \<Longrightarrow> m = n"
  by (simp add: str_int_def str_nat_inj)

subsection \<open>What a cell that completes has done\<close>

lemma cell2_Inr:
  assumes "cell2 L s = (Inr (), s')"
  shows "\<exists>key. getpass L ''OpenAI API Key:'' = Inr key \<and> CHR 0x00 \<notin> set key
    \<and> s' = s\<lparr>environ := (environ s)(''OPENAI_API_KEY'' \<mapsto> key),
              calls := calls s @ [GetPass ''OpenAI API Key:'']\<rparr>"
  using assms by (auto simp add: cell2_def py_defs split: sum.splits if_splits)







text \<open>
  The statements of cell 9 after its first line append one pair to whatever the history
  holds, and call the chain with the history as it was.
\<close>

lemma ask_Inr:
  assumes "ask L s = (Inr (), s')"
  shows "\<exists>chain h res answer. chatbot s = Some chain
    \<and> chat_history s = Some h
    \<and> chain_call L chain ''What makes Retentive Networks good?'' h = Inr res
    \<and> res ''answer'' = Some answer
    \<and> s' = s\<lparr>chat_history := Some (h @ [(''What makes Retentive Networks good?'', answer)]),
              query := Some ''What makes Retentive Networks good?'',
              result := Some res,
              displayed := Some answer,
              calls := calls s @ [ChainCall chain ''What makes Retentive Networks good?'' h]\<rparr>"
  using assms by (auto simp add: ask_def py_defs split: sum.splits option.splits)

lemma cell9_Inr:
  assumes "cell9 L s = (Inr (), s')"
  shows "\<exists>chain res answer. chatbot s = Some chain
    \<and> chain_call L chain ''What makes Retentive Networks good?'' [] = Inr res
    \<and> res ''answer'' = Some answer
    \<and> s' = s\<lparr>chat_history := Some [(''What makes Retentive Networks good?'', answer)],
              query := Some ''What makes Retentive Networks good?'',
              result := Some res,
              displayed := Some answer,
              calls := calls s @ [ChainCall chain ''What makes Retentive Networks good?'' []]\<rparr>"
proof -
  from assms have "ask L (s\<lparr>chat_history := Some []\<rparr>) = (Inr (), s')"
    by (simp add: cell9_def then_py_def bind_py_def assign_def)
  from ask_Inr [OF this] show ?thesis by auto
qed



subsection \<open>What a run that completes has done\<close>




subsection \<open>Variables a statement leaves alone\<close>

lemma preserves_D: "preserves var m \<Longrightarrow> m s = (r, s') \<Longrightarrow> var s' = var s"
  unfolding preserves_def by (metis snd_conv)

lemma preserves_bind:
  assumes "preserves var m" and "\<And>v. preserves var (f v)"
  shows "preserves var (bind_py m f)"
  unfolding preserves_def
proof
  fix s
  obtain r1 s1 where m: "m s = (r1, s1)" by (cases "m s")
  from preserves_D [OF assms(1) m] have s1: "var s1 = var s" .
  show "var (snd (bind_py m f s)) = var s"
  proof (cases r1)
    case (Inl e)
    with m s1 show ?thesis by (simp add: bind_py_def)
  next
    case (Inr v)
    obtain r2 s2 where f: "f v s1 = (r2, s2)" by (cases "f v s1")
    from preserves_D [OF assms(2) f] s1 have "var s2 = var s" by simp
    with m Inr f show ?thesis by (simp add: bind_py_def)
  qed
qed

lemma preserves_then: "preserves var m \<Longrightarrow> preserves var n \<Longrightarrow> preserves var (then_py m n)"
  by (simp add: then_py_def preserves_bind)

lemma preserves_invoke: "(\<And>s cs. var (s\<lparr>calls := cs\<rparr>) = var s) \<Longrightarrow> preserves var (invoke c r)"
  by (simp add: preserves_def invoke_def)

lemma preserves_name_lookup: "preserves var (name_lookup n x)"
  by (simp add: preserves_def name_lookup_def split: option.splits)

lemma preserves_raise: "preserves var (raise_py e)"
  by (simp add: preserves_def raise_py_def)

lemma preserves_subscript: "preserves var (subscript d k)"
  by (simp add: preserves_def subscript_def raise_py_def split: option.splits)

lemma preserves_assign: "(\<And>s. var (f s) = var s) \<Longrightarrow> preserves var (assign f)"
  by (simp add: preserves_def assign_def)

lemma preserves_print: "(\<And>s out. var (s\<lparr>stdout := out\<rparr>) = var s) \<Longrightarrow> preserves var (print line)"
  by (simp add: print_def preserves_assign)

lemma preserves_with_environ:
  assumes "\<And>env. preserves var (m env)"
  shows "preserves var (with_environ m)"
  using assms unfolding preserves_def with_environ_def by simp

lemmas preserves_intros = preserves_bind preserves_then preserves_invoke preserves_name_lookup
  preserves_raise preserves_subscript preserves_assign preserves_print preserves_with_environ

lemma environ_cell3: "preserves environ (cell3 L)"
  unfolding cell3_def by (intro preserves_intros) simp_all

lemma environ_cell4: "preserves environ (cell4 L)"
  unfolding cell4_def by (intro preserves_intros) simp_all

lemma environ_cell5: "preserves environ (cell5 L)"
  unfolding cell5_def by (intro preserves_intros) simp_all

lemma environ_cell6: "preserves environ (cell6 L)"
  unfolding cell6_def by (intro preserves_intros) simp_all

lemma environ_cell7: "preserves environ cell7"
  unfolding cell7_def
  by (intro preserves_intros) (simp_all add: preserves_intros split: list.splits)

lemma environ_cell8: "preserves environ (cell8 L)"
  unfolding cell8_def by (intro preserves_intros) simp_all

lemma environ_cell9: "preserves environ (cell9 L)"
  unfolding cell9_def ask_def by (intro preserves_intros) simp_all

lemma environ_after_cell2:
  "preserves environ (then_py (cell3 L) (then_py (cell4 L) (then_py (cell5 L) (then_py (cell6 L)
     (then_py cell7 (then_py (cell8 L) (cell9 L)))))))"
  by (intro preserves_then environ_cell3 environ_cell4 environ_cell5 environ_cell6
      environ_cell7 environ_cell8 environ_cell9)

subsection \<open>The concrete run, evaluated\<close>

lemma demo_cell2:
  "cell2 demo_libs (fresh demo_env) =
     (Inr (), (fresh demo_env)\<lparr>environ := demo_env(''OPENAI_API_KEY'' \<mapsto> ''sk-demo''),
        calls := [GetPass ''OpenAI API Key:'']\<rparr>)"
  by (simp add: cell2_def py_defs demo_libs_def fresh_def)

lemma demo_run: "notebook demo_libs (fresh demo_env) = (Inr (), demo_final)"
  by (simp add: notebook_def cell2_def cell3_def cell4_def cell5_def cell6_def cell7_def
      cell8_def cell9_def ask_def py_defs demo_libs_def demo_docs_def demo_chunks_def fresh_def
      demo_final_def)

lemma demo_again:
  "cell9 demo_libs demo_final =
     (Inr (), demo_final\<lparr>calls := calls demo_final
        @ [ChainCall ''chain'' ''What makes Retentive Networks good?'' []]\<rparr>)"
  by (simp add: cell9_def ask_def py_defs demo_libs_def demo_final_def)


lemma str_int_1 [simp]: "str_int 1 = ''1''"
  by (simp add: str_int_def str_nat.simps)




section \<open>The claims\<close>

subsection \<open>Counting the loaded documents\<close>

text \<open>
  C8. Whatever list of documents the loader returns, cell 3 completes without an
  exception; \<open>num_docs\<close> is the length of the list and \<open>num_chars\<close> the sum of the lengths
  of the documents' page contents; the two printed lines carry exactly these two numbers
  in decimal; for the empty list both printed counts are 0.
\<close>

theorem cell3_counts:
  assumes "DirectoryLoader L ''../documents/'' ''**/*.pdf'' = Inr ldr"
    and "load L ldr = Inr ds"
  shows "\<exists>s'. cell3 L s = (Inr (), s')
      \<and> documents s' = Some ds
      \<and> num_docs s' = Some (int (length ds))
      \<and> num_chars s' = Some (\<Sum>d\<leftarrow>ds. int (length (page_content d)))
      \<and> stdout s' = stdout s @
          [''Found '' @ str_int (int (length ds)) @ '' document(s) the provided directory'',
           ''Found '' @ str_int (\<Sum>d\<leftarrow>ds. int (length (page_content d)))
              @ '' characters in your document(s)'']
      \<and> (ds = [] \<longrightarrow> stdout s' = stdout s @
          [''Found 0 document(s) the provided directory'',
           ''Found 0 characters in your document(s)''])"
  using assms by (simp add: cell3_def py_defs str_int_0)

text \<open>
  The run on \<open>demo_libs\<close> (two documents of 10 and 5 characters) and on an empty
  directory.
\<close>

theorem cell3_counts_witness:
  "fst (cell3 demo_libs (fresh demo_env)) = Inr ()
   \<and> num_docs (snd (cell3 demo_libs (fresh demo_env))) = Some 2
   \<and> num_chars (snd (cell3 demo_libs (fresh demo_env))) = Some 15
   \<and> stdout (snd (cell3 demo_libs (fresh demo_env))) =
        [''Found 2 document(s) the provided directory'',
         ''Found 15 characters in your document(s)'']
   \<and> fst (cell3 empty_dir_libs (fresh demo_env)) = Inr ()
   \<and> stdout (snd (cell3 empty_dir_libs (fresh demo_env))) =
        [''Found 0 document(s) the provided directory'',
         ''Found 0 characters in your document(s)'']"
proof -
  have a: "DirectoryLoader demo_libs ''../documents/'' ''**/*.pdf'' = Inr ''loader''"
    and b: "load demo_libs ''loader'' = Inr demo_docs"
    by (simp_all add: demo_libs_def)
  have c: "DirectoryLoader empty_dir_libs ''../documents/'' ''**/*.pdf'' = Inr ''loader''"
    and d: "load empty_dir_libs ''loader'' = Inr []"
    by (simp_all add: empty_dir_libs_def demo_libs_def)
  from cell3_counts [OF a b, of "fresh demo_env"] cell3_counts [OF c d, of "fresh demo_env"]
  show ?thesis
    by (auto simp add: demo_docs_def fresh_def)
qed

subsection \<open>The API key\<close>

text \<open>
  C6. When cell 2 completes, the string the prompt returned is the value of
  \<open>OPENAI_API_KEY\<close> in the environment and every other environment variable is as it
  was; the rest of the notebook, whatever its outcome, leaves the environment as cell 2
  left it.
\<close>

theorem api_key_environ:
  assumes "cell2 L s = (Inr (), s2)" and "notebook L s = (r, s')"
  shows "\<exists>key. getpass L ''OpenAI API Key:'' = Inr key
    \<and> environ s2 ''OPENAI_API_KEY'' = Some key
    \<and> (\<forall>k. k \<noteq> ''OPENAI_API_KEY'' \<longrightarrow> environ s2 k = environ s k)
    \<and> environ s' = environ s2"
proof -
  from cell2_Inr [OF assms(1)] obtain key where key: "getpass L ''OpenAI API Key:'' = Inr key"
    and s2: "environ s2 = (environ s)(''OPENAI_API_KEY'' \<mapsto> key)"
    by (elim exE conjE) simp
  from assms have "then_py (cell3 L) (then_py (cell4 L) (then_py (cell5 L) (then_py (cell6 L)
     (then_py cell7 (then_py (cell8 L) (cell9 L)))))) s2 = (r, s')"
    unfolding notebook_def by (simp add: then_py_def bind_py_def)
  with environ_after_cell2 have "environ s' = environ s2" by (rule preserves_D)
  with key s2 show ?thesis by simp
qed

theorem api_key_environ_witness:
  "cell2 demo_libs (fresh demo_env) =
     (Inr (), (fresh demo_env)\<lparr>environ := demo_env(''OPENAI_API_KEY'' \<mapsto> ''sk-demo''),
        calls := [GetPass ''OpenAI API Key:'']\<rparr>)
   \<and> notebook demo_libs (fresh demo_env) = (Inr (), demo_final)
   \<and> environ demo_final ''OPENAI_API_KEY'' = Some ''sk-demo''
   \<and> environ demo_final ''HOME'' = Some ''/home/user''"
  using api_key_environ [OF demo_cell2 demo_run] demo_cell2 demo_run
  by (auto simp add: fresh_def demo_env_def)

subsection \<open>The order of the library calls\<close>




subsection \<open>Exceptions\<close>




subsection \<open>The chat history\<close>

text \<open>
  C4, as the code has it. The statements that ask the question append one pair to
  whatever the history holds (\<open>ask_Inr\<close>), but cell 9 rebinds \<open>chat_history\<close> to the
  empty list before them. So every execution of the cell calls the chain once with the
  question and an empty history and appends the pair of the question and the answer:
  when the cell completes, \<open>chat_history\<close> is the one-element list of that pair,
  whatever it held before. The cell binds \<open>chat_history\<close>, \<open>query\<close> and \<open>result\<close>,
  displays the answer and logs the call; \<open>documents\<close> (the chunks), \<open>vectorstore\<close>,
  \<open>retriever\<close> and everything else are as they were.
\<close>

theorem chat_cell_history:
  assumes "cell9 L s = (Inr (), s')"
  shows "\<exists>chain res answer. chatbot s = Some chain
    \<and> chain_call L chain ''What makes Retentive Networks good?'' [] = Inr res
    \<and> res ''answer'' = Some answer
    \<and> chat_history s' = Some [(''What makes Retentive Networks good?'', answer)]
    \<and> documents s' = documents s
    \<and> vectorstore s' = vectorstore s
    \<and> retriever s' = retriever s
    \<and> s' = s\<lparr>chat_history := Some [(''What makes Retentive Networks good?'', answer)],
              query := Some ''What makes Retentive Networks good?'',
              result := Some res,
              displayed := Some answer,
              calls := calls s @ [ChainCall chain ''What makes Retentive Networks good?'' []]\<rparr>"
proof -
  from cell9_Inr [OF assms] obtain chain res answer where chain: "chatbot s = Some chain"
    and res: "chain_call L chain ''What makes Retentive Networks good?'' [] = Inr res"
    and answer: "res ''answer'' = Some answer"
    and s': "s' = s\<lparr>chat_history := Some [(''What makes Retentive Networks good?'', answer)],
              query := Some ''What makes Retentive Networks good?'',
              result := Some res,
              displayed := Some answer,
              calls := calls s @ [ChainCall chain ''What makes Retentive Networks good?'' []]\<rparr>"
    by (elim exE conjE)
  from s' have frame:
    "chat_history s' = Some [(''What makes Retentive Networks good?'', answer)]"
    "documents s' = documents s" "vectorstore s' = vectorstore s" "retriever s' = retriever s"
    by simp_all
  note facts = chain res answer frame s'
  show ?thesis
    apply (rule exI [of _ chain], rule exI [of _ res], rule exI [of _ answer])
    apply (intro conjI)
    apply (rule facts)+
    done
qed

theorem chat_cell_history_witness:
  "fst (cell9 demo_libs demo_final) = Inr ()
   \<and> chat_history (snd (cell9 demo_libs demo_final)) =
       Some [(''What makes Retentive Networks good?'', ''They are fast.'')]
   \<and> documents (snd (cell9 demo_libs demo_final)) = Some demo_chunks
   \<and> vectorstore (snd (cell9 demo_libs demo_final)) = Some ''vectorstore''
   \<and> retriever (snd (cell9 demo_libs demo_final)) = Some ''retriever''"
  using chat_cell_history [OF demo_again] demo_again
  by (auto simp add: demo_libs_def demo_final_def)

text \<open>
  The chat cell run a second time, after a complete run of the notebook: the history
  held one turn before, the chain is called with an empty history again, and the history
  holds one turn after, not two. The turn of the first interaction is not kept.
\<close>

theorem chat_history_not_accumulated:
  "notebook demo_libs (fresh demo_env) = (Inr (), demo_final)
   \<and> chat_history demo_final =
       Some [(''What makes Retentive Networks good?'', ''They are fast.'')]
   \<and> fst (cell9 demo_libs demo_final) = Inr ()
   \<and> last (calls (snd (cell9 demo_libs demo_final))) =
       ChainCall ''chain'' ''What makes Retentive Networks good?'' []
   \<and> chat_history (snd (cell9 demo_libs demo_final)) =
       Some [(''What makes Retentive Networks good?'', ''They are fast.'')]
   \<and> chat_history (snd (cell9 demo_libs demo_final)) \<noteq>
       Some ([(''What makes Retentive Networks good?'', ''They are fast.'')]
             @ [(''What makes Retentive Networks good?'', ''They are fast.'')])"
  using demo_run demo_again by (simp add: demo_final_def)

end
